theory Spec2Isabelle
  imports Complex_Main "HOL-Library.Word" "HOL-Library.Char_ord" "HOL-Library.List_Lexorder"
begin

section \<open>Strings: the library calls of the numeric extractors\<close>

text \<open>
  A Go string is a sequence of bytes holding UTF-8; here it is a \<open>string\<close>, a list of
  8-bit characters. The separators of \<open>floatFromFieldsMulti\<close> (comma and colon) are
  ASCII, and no byte of a multi-byte UTF-8 sequence is ASCII, so splitting on bytes is
  splitting on code points.
\<close>

text \<open>
  \<open>strings.FieldsFunc(s, f)\<close>: the maximal runs of characters that do not satisfy
  \<open>f\<close>; empty runs are not returned. \<open>cur\<close> is the run read so far.
\<close>

fun fieldsScan :: "(char \<Rightarrow> bool) \<Rightarrow> string \<Rightarrow> string \<Rightarrow> string list" where
  "fieldsScan f cur [] = (if cur = [] then [] else [cur])"
| "fieldsScan f cur (c # cs) =
     (if f c then (if cur = [] then [] else [cur]) @ fieldsScan f [] cs
      else fieldsScan f (cur @ [c]) cs)"

definition FieldsFunc :: "string \<Rightarrow> (char \<Rightarrow> bool) \<Rightarrow> string list" where
  "FieldsFunc s f = fieldsScan f [] s"

text \<open>
  \<open>strings.TrimSpace\<close> removes leading and trailing white space as Unicode defines
  it. These are the UTF-8 encodings of the code points of \<open>unicode.IsSpace\<close>: tab, line
  feed, vertical tab, form feed, carriage return, space, U+0085, U+00A0, U+1680,
  U+2000 to U+200A, U+2028, U+2029, U+202F, U+205F and U+3000.
\<close>

definition unicodeSpaces :: "string list" where
  "unicodeSpaces =
     [[CHR 0x09], [CHR 0x0A], [CHR 0x0B], [CHR 0x0C], [CHR 0x0D], [CHR 0x20],
      [CHR 0xC2, CHR 0x85], [CHR 0xC2, CHR 0xA0],
      [CHR 0xE1, CHR 0x9A, CHR 0x80],
      [CHR 0xE2, CHR 0x80, CHR 0x80], [CHR 0xE2, CHR 0x80, CHR 0x81],
      [CHR 0xE2, CHR 0x80, CHR 0x82], [CHR 0xE2, CHR 0x80, CHR 0x83],
      [CHR 0xE2, CHR 0x80, CHR 0x84], [CHR 0xE2, CHR 0x80, CHR 0x85],
      [CHR 0xE2, CHR 0x80, CHR 0x86], [CHR 0xE2, CHR 0x80, CHR 0x87],
      [CHR 0xE2, CHR 0x80, CHR 0x88], [CHR 0xE2, CHR 0x80, CHR 0x89],
      [CHR 0xE2, CHR 0x80, CHR 0x8A],
      [CHR 0xE2, CHR 0x80, CHR 0xA8], [CHR 0xE2, CHR 0x80, CHR 0xA9],
      [CHR 0xE2, CHR 0x80, CHR 0xAF],
      [CHR 0xE2, CHR 0x81, CHR 0x9F],
      [CHR 0xE3, CHR 0x80, CHR 0x80]]"

text \<open>The rest of \<open>s\<close> after one leading white-space code point, if it has one.\<close>

fun dropSpace :: "string list \<Rightarrow> string \<Rightarrow> string option" where
  "dropSpace [] s = None"
| "dropSpace (w # ws) s =
     (if take (length w) s = w then Some (drop (length w) s) else dropSpace ws s)"

text \<open>
  Trimming on the left removes white-space code points while there is one; \<open>n\<close> bounds
  the number of rounds, and \<open>length s\<close> rounds always suffice, each removing a byte at
  least.
\<close>

fun trimLeftN :: "nat \<Rightarrow> string \<Rightarrow> string" where
  "trimLeftN 0 s = s"
| "trimLeftN (Suc n) s =
     (case dropSpace unicodeSpaces s of None \<Rightarrow> s | Some s' \<Rightarrow> trimLeftN n s')"

definition TrimLeftSpace :: "string \<Rightarrow> string" where
  "TrimLeftSpace s = trimLeftN (length s) s"

text \<open>
  On the right the same is done on the reversed bytes, with the encodings reversed: the
  last code point of a string is a white-space one exactly when the string ends with
  that code point's encoding.
\<close>

fun trimRightN :: "nat \<Rightarrow> string \<Rightarrow> string" where
  "trimRightN 0 s = s"
| "trimRightN (Suc n) s =
     (case dropSpace (map rev unicodeSpaces) s of None \<Rightarrow> s | Some s' \<Rightarrow> trimRightN n s')"

definition TrimRightSpace :: "string \<Rightarrow> string" where
  "TrimRightSpace s = rev (trimRightN (length s) (rev s))"

definition TrimSpace :: "string \<Rightarrow> string" where
  "TrimSpace s = TrimRightSpace (TrimLeftSpace s)"

section \<open>Numeric extraction\<close>

text \<open>
  The errors the pipeline makes itself, each with the arguments of its format string,
  and the errors handed over by the line parser and by a relabeling's transform.
\<close>

datatype error =
    FloatParseError string
  | LabelCountExceeded nat
  | ForeignError string

text \<open>
  The parsed line, \<open>map[string]string\<close>. A variable of this type is written
  \<open>flds\<close> where the source has \<open>fields\<close>.
\<close>

type_synonym fields = "string \<rightharpoonup> string"

text \<open>
  A Go extractor returns \<open>(float64, bool, error)\<close>; the triple is kept as it is, since
  \<open>observeMetrics\<close> tests the flag before the error.

  \<open>float64\<close> is a type \<open>'f\<close> of which only the constant 0 and the addition are used,
  with no law assumed of them. \<open>strconv.ParseFloat(v, 64)\<close> is the parameter \<open>P\<close>:
  \<open>None\<close> where it returns an error.
\<close>

type_synonym 'f extraction = "'f \<times> bool \<times> error option"

definition floatFromFields ::
  "(string \<Rightarrow> 'f option) \<Rightarrow> fields \<Rightarrow> string \<Rightarrow> ('f::{zero,plus}) extraction" where
  "floatFromFields P flds name =
     (case flds name of
        None \<Rightarrow> (0, False, None)
      | Some val \<Rightarrow>
          if val = ''-'' then (0, False, None)
          else (case P val of
                  None \<Rightarrow> (0, False, Some (FloatParseError val))
                | Some f \<Rightarrow> (f, True, None)))"

text \<open>
  The loop of \<open>floatFromFieldsMulti\<close> over the split value: \<open>acc\<close> is the variable \<open>sum\<close>,
  and the first token that does not parse ends the loop with the error.
\<close>

fun sumTokens ::
  "(string \<Rightarrow> 'f option) \<Rightarrow> string \<Rightarrow> 'f \<Rightarrow> string list \<Rightarrow> ('f::{zero,plus}) extraction" where
  "sumTokens P val acc [] = (acc, True, None)"
| "sumTokens P val acc (v # vs) =
     (let v' = TrimSpace v in
      if v' = ''-'' then sumTokens P val acc vs
      else (case P v' of
              None \<Rightarrow> (0, False, Some (FloatParseError val))
            | Some f \<Rightarrow> sumTokens P val (acc + f) vs))"

definition floatFromFieldsMulti ::
  "(string \<Rightarrow> 'f option) \<Rightarrow> fields \<Rightarrow> string \<Rightarrow> ('f::{zero,plus}) extraction" where
  "floatFromFieldsMulti P flds name =
     (case floatFromFields P flds name of
        (f, ok, None) \<Rightarrow> (f, ok, None)
      | (_, _, Some _) \<Rightarrow>
          (case flds name of
             None \<Rightarrow> (0, False, None)
           | Some val \<Rightarrow>
               sumTokens P val 0
                 (FieldsFunc val (\<lambda>r. r = CHR '','' \<or> r = CHR '':''))))"

section \<open>Configuration\<close>

text \<open>
  The structs of \<open>pkg/config\<close>, with the fields the pipeline reads.
  \<open>RelabelConfig\<close> is declared in a file that is not among the sources, so it is the
  type parameter \<open>'rc\<close>. The Go map \<open>Labels\<close> is an association list with distinct
  keys, in the order in which \<open>range\<close> happens to visit it: the order is not fixed by
  the language, and \<open>OrderLabels\<close> has to be independent of it.
\<close>

record MetricsConfig =
  CurrentUserInterval :: int
  DisableCountTotal :: bool
  DisableResponseBytesTotal :: bool
  DisableRequestBytesTotal :: bool
  DisableUpstreamSeconds :: bool
  DisableUpstreamConnectSeconds :: bool
  DisableResponseSeconds :: bool

record 'rc NamespaceConfig =
  Labels :: "(string \<times> string) list"
  RelabelConfigs :: "'rc list"
  MetricsConfig :: MetricsConfig
  PrintLog :: bool
  OrderedLabelNames :: "string list"
  OrderedLabelValues :: "string list"

text \<open>\<open>c.Labels[k]\<close>: the zero value, the empty string, for a key that is not there.\<close>

definition lookupLabel :: "(string \<times> string) list \<Rightarrow> string \<Rightarrow> string" where
  "lookupLabel labels k = (case map_of labels k of None \<Rightarrow> [] | Some v \<Rightarrow> v)"

text \<open>The second loop of \<open>OrderLabels\<close>: \<open>values[i] = c.Labels[k]\<close> for each key.\<close>

fun assignValues ::
  "(string \<times> string) list \<Rightarrow> nat \<Rightarrow> string list \<Rightarrow> string list \<Rightarrow> string list" where
  "assignValues labels i [] values = values"
| "assignValues labels i (k # ks) values =
     assignValues labels (Suc i) ks (values[i := lookupLabel labels k])"

definition OrderLabels :: "'rc NamespaceConfig \<Rightarrow> 'rc NamespaceConfig" where
  "OrderLabels c =
     (let keys = sort (map fst (Labels c));
          values = assignValues (Labels c) 0 keys (replicate (length (Labels c)) [])
      in c\<lparr>OrderedLabelNames := keys, OrderedLabelValues := values\<rparr>)"

section \<open>Field filter\<close>

text \<open>
  The loop of \<open>filterFields\<close> copies each entry of the map for itself, so the result is
  given entry by entry.
\<close>

definition filterFields :: "fields \<Rightarrow> 'rc NamespaceConfig \<Rightarrow> fields" where
  "filterFields flds nsCfg =
     (\<lambda>field.
        case flds field of
          None \<Rightarrow> None
        | Some val \<Rightarrow>
            (let disabled =
               (if field = ''body_bytes_sent''
                  then DisableResponseBytesTotal (MetricsConfig nsCfg)
                else if field = ''request_length''
                  then DisableRequestBytesTotal (MetricsConfig nsCfg)
                else if field = ''upstream_response_time''
                  then DisableUpstreamSeconds (MetricsConfig nsCfg)
                else if field = ''upstream_connect_time''
                  then DisableUpstreamConnectSeconds (MetricsConfig nsCfg)
                else if field = ''request_time''
                  then DisableResponseSeconds (MetricsConfig nsCfg)
                else False)
             in if \<not> disabled then Some val else None))"

section \<open>Metrics\<close>

text \<open>
  The metrics collection belongs to \<open>pkg/metrics\<close> and to the Prometheus client. Its
  state is the sequence of updates applied to it, oldest first: each constructor is one
  call, with the label values of \<open>WithLabelValues\<close> and the number passed. Messages
  written to the logger and lines echoed to standard output are not part of it.
\<close>

datatype 'f update =
    ParseErrorsTotal_Inc
  | CountTotal_Inc "string list"
  | CurrentUsers_Set "string list" nat
  | ResponseBytesTotal_Add "string list" 'f
  | RequestBytesTotal_Add "string list" 'f
  | UpstreamSeconds_Observe "string list" 'f
  | UpstreamSecondsHist_Observe "string list" 'f
  | UpstreamConnectSeconds_Observe "string list" 'f
  | UpstreamConnectSecondsHist_Observe "string list" 'f
  | ResponseSeconds_Observe "string list" 'f
  | ResponseSecondsHist_Observe "string list" 'f

definition observeMetrics ::
  "fields \<Rightarrow> string \<Rightarrow> (fields \<Rightarrow> string \<Rightarrow> ('f::{zero,plus}) extraction) \<Rightarrow>
     'f update list \<Rightarrow> ('f \<times> bool) \<times> 'f update list" where
  "observeMetrics flds name extractor parseErrors =
     (case extractor flds name of
        (observation, ok, err) \<Rightarrow>
          if ok then ((observation, True), parseErrors)
          else if err \<noteq> None then ((0, False), parseErrors @ [ParseErrorsTotal_Inc])
          else ((0, False), parseErrors))"

text \<open>
  \<open>UsersUpdated.users\<close>, a map from the user id to the Unix time of the last request.
  \<open>now\<close> is what \<open>time.Now().Unix()\<close> returns, and \<open>float64(len(users))\<close> is the
  number of keys, kept as a natural number.
\<close>

type_synonym users = "string \<rightharpoonup> 64 word"

definition observeCurrentUsers ::
  "fields \<Rightarrow> users \<Rightarrow> 64 word \<Rightarrow> (nat \<times> bool) \<times> users" where
  "observeCurrentUsers flds users now =
     (case flds ''remote_addr'' of
        None \<Rightarrow> ((0, False), users)
      | Some remoteAddr \<Rightarrow>
          if remoteAddr = [] then ((0, False), users)
          else (case flds ''http_user_agent'' of
                  None \<Rightarrow> ((0, False), users)
                | Some userAgent \<Rightarrow>
                    if userAgent = [] then ((0, False), users)
                    else (let userId = remoteAddr @ ''::'' @ userAgent;
                              users' = users(userId \<mapsto> now)
                          in ((card (dom users'), True), users'))))"

section \<open>Relabeling\<close>

text \<open>
  The package \<open>pkg/relabeling\<close> is not among the sources. A relabeling is known by
  what the pipeline reads of it: the source field, the flag \<open>OnlyCounter\<close> and the
  method \<open>Map\<close>, which returns the mapped value or an error. The functions of the
  package that \<open>processSource\<close> calls are the fields of \<open>relabeling_pkg\<close>, parameters
  of the model.
\<close>

record Relabeling =
  SourceValue :: string
  OnlyCounter :: bool
  Map :: "string \<Rightarrow> error + string"

record 'rc relabeling_pkg =
  NewRelabelings :: "'rc list \<Rightarrow> Relabeling list"
  DefaultRelabelings :: "Relabeling list"
  UniqueRelabelings :: "Relabeling list \<Rightarrow> Relabeling list"
  StripExcluded :: "Relabeling list \<Rightarrow> Relabeling list"
  StripOnlyCounterValues :: "string list \<Rightarrow> Relabeling list \<Rightarrow> string list"

text \<open>
  The loop \<open>for i := range relabelings\<close>, at index \<open>i\<close> with the relabelings from
  \<open>i\<close> on. An assignment to a slice panics out of range, where \<open>list_update\<close> does
  nothing; \<open>processSource\<close> makes the slice as long as the static labels and the
  relabelings together, and no line changes its length (shown below with the static
  segment), so every index written here is in range.
\<close>

fun relabelLoop ::
  "nat \<Rightarrow> fields \<Rightarrow> nat \<Rightarrow> Relabeling list \<Rightarrow> string list \<Rightarrow> string list" where
  "relabelLoop relabelLabelOffset flds i [] labelValues = labelValues"
| "relabelLoop relabelLabelOffset flds i (r # rs) labelValues =
     relabelLoop relabelLabelOffset flds (Suc i) rs
       (case flds (SourceValue r) of
          None \<Rightarrow> labelValues
        | Some str \<Rightarrow>
            (case Map r str of
               Inl err \<Rightarrow> labelValues
             | Inr mapped \<Rightarrow> labelValues[i + relabelLabelOffset := mapped]))"

section \<open>The source pipeline\<close>

definition maxStaticLabels :: nat where
  "maxStaticLabels = 128"

text \<open>The builtin \<open>copy(dst, src)\<close>, which copies as many elements as both slices have.\<close>

definition copy :: "'a list \<Rightarrow> 'a list \<Rightarrow> 'a list" where
  "copy dst src = take (length dst) src @ drop (length src) dst"

text \<open>
  The variables of \<open>processSource\<close> that live across the lines, with the metrics
  collection it updates.
\<close>

record 'f pipeline =
  labelValues :: "string list"
  usersUpdated :: users
  metrics :: "'f update list"

text \<open>
  One statement \<open>if v, ok := observeMetrics(...); ok { ... }\<close>: \<open>upd\<close> gives the
  updates of its body.
\<close>

definition observeInto ::
  "fields \<Rightarrow> string \<Rightarrow> (fields \<Rightarrow> string \<Rightarrow> ('f::{zero,plus}) extraction) \<Rightarrow>
     ('f \<Rightarrow> 'f update list) \<Rightarrow> 'f update list \<Rightarrow> 'f update list" where
  "observeInto flds name extractor upd m =
     (case observeMetrics flds name extractor m of
        ((v, ok), m') \<Rightarrow> if ok then m' @ upd v else m')"

text \<open>The five such statements that end the loop body, in their order.\<close>

definition observeNumeric ::
  "(string \<Rightarrow> 'f option) \<Rightarrow> fields \<Rightarrow> string list \<Rightarrow> 'f update list \<Rightarrow>
     ('f::{zero,plus}) update list" where
  "observeNumeric P flds notCounterValues m =
     (let m1 = observeInto flds ''body_bytes_sent'' (floatFromFields P)
                 (\<lambda>v. [ResponseBytesTotal_Add notCounterValues v]) m;
          m2 = observeInto flds ''request_length'' (floatFromFields P)
                 (\<lambda>v. [RequestBytesTotal_Add notCounterValues v]) m1;
          m3 = observeInto flds ''upstream_response_time'' (floatFromFieldsMulti P)
                 (\<lambda>v. [UpstreamSeconds_Observe notCounterValues v,
                        UpstreamSecondsHist_Observe notCounterValues v]) m2;
          m4 = observeInto flds ''upstream_connect_time'' (floatFromFieldsMulti P)
                 (\<lambda>v. [UpstreamConnectSeconds_Observe notCounterValues v,
                        UpstreamConnectSecondsHist_Observe notCounterValues v]) m3
      in observeInto flds ''request_time'' (floatFromFields P)
           (\<lambda>v. [ResponseSeconds_Observe notCounterValues v,
                  ResponseSecondsHist_Observe notCounterValues v]) m4)"

text \<open>
  The statement \<open>if nsCfg.MetricsConfig.CurrentUserInterval > 0 { ... }\<close>. The ticker
  and the goroutine it starts, which removes old users every 15 seconds, run beside
  the loop and are not part of this sequential model.
\<close>

definition observeUsers ::
  "'rc NamespaceConfig \<Rightarrow> fields \<Rightarrow> string list \<Rightarrow> 64 word \<Rightarrow>
     users \<times> 'f update list \<Rightarrow> users \<times> 'f update list" where
  "observeUsers nsCfg flds notCounterValues now um =
     (case um of
        (users, m) \<Rightarrow>
          if CurrentUserInterval (MetricsConfig nsCfg) > 0 then
            (case observeCurrentUsers flds users now of
               ((v, ok), users') \<Rightarrow>
                 (users', if ok then m @ [CurrentUsers_Set notCounterValues v] else m))
          else (users, m))"

text \<open>
  The body of \<open>for line := range t.Lines()\<close>. A line comes with the time at which it
  is processed; \<open>parser\<close> is \<open>parser.ParseString\<close>.
\<close>

definition processLine ::
  "'rc relabeling_pkg \<Rightarrow> (string \<Rightarrow> 'f option) \<Rightarrow> 'rc NamespaceConfig \<Rightarrow>
     (string \<Rightarrow> error + fields) \<Rightarrow> bool \<Rightarrow> Relabeling list \<Rightarrow> nat \<Rightarrow>
     string \<times> 64 word \<Rightarrow> ('f::{zero,plus}) pipeline \<Rightarrow> 'f pipeline" where
  "processLine pkg P nsCfg parser hasCounterOnlyLabels relabelings relabelLabelOffset entry st =
     (case entry of
        (line, now) \<Rightarrow>
          (case parser line of
             Inl err \<Rightarrow> st\<lparr>metrics := metrics st @ [ParseErrorsTotal_Inc]\<rparr>
           | Inr parsed \<Rightarrow>
               (let flds = filterFields parsed nsCfg;
                    lv = relabelLoop relabelLabelOffset flds 0 relabelings (labelValues st);
                    notCounterValues =
                      (if hasCounterOnlyLabels
                       then StripOnlyCounterValues pkg lv relabelings else lv);
                    m1 = (if DisableCountTotal (MetricsConfig nsCfg) \<noteq> True
                          then metrics st @ [CountTotal_Inc lv] else metrics st);
                    um = observeUsers nsCfg flds notCounterValues now (usersUpdated st, m1)
                in \<lparr>labelValues = lv, usersUpdated = fst um,
                     metrics = observeNumeric P flds notCounterValues (snd um)\<rparr>)))"

fun processLines ::
  "'rc relabeling_pkg \<Rightarrow> (string \<Rightarrow> 'f option) \<Rightarrow> 'rc NamespaceConfig \<Rightarrow>
     (string \<Rightarrow> error + fields) \<Rightarrow> bool \<Rightarrow> Relabeling list \<Rightarrow> nat \<Rightarrow>
     (string \<times> 64 word) list \<Rightarrow> ('f::{zero,plus}) pipeline \<Rightarrow> 'f pipeline" where
  "processLines pkg P nsCfg parser hasCounterOnlyLabels relabelings relabelLabelOffset [] st = st"
| "processLines pkg P nsCfg parser hasCounterOnlyLabels relabelings relabelLabelOffset (entry # rest) st =
     processLines pkg P nsCfg parser hasCounterOnlyLabels relabelings relabelLabelOffset rest
       (processLine pkg P nsCfg parser hasCounterOnlyLabels relabelings relabelLabelOffset entry st)"

text \<open>The relabelings of a source, as the first four statements build them.\<close>

definition sourceRelabelings :: "'rc relabeling_pkg \<Rightarrow> 'rc NamespaceConfig \<Rightarrow> Relabeling list" where
  "sourceRelabelings pkg nsCfg =
     StripExcluded pkg
       (UniqueRelabelings pkg
          (NewRelabelings pkg (RelabelConfigs nsCfg) @ DefaultRelabelings pkg))"

text \<open>The state with which the loop is entered.\<close>

definition initialPipeline ::
  "'rc relabeling_pkg \<Rightarrow> 'rc NamespaceConfig \<Rightarrow> 'f update list \<Rightarrow> 'f pipeline" where
  "initialPipeline pkg nsCfg m =
     (let staticLabelValues = OrderedLabelValues nsCfg;
          totalLabelCount = length staticLabelValues + length (sourceRelabelings pkg nsCfg)
      in \<lparr>labelValues = copy (replicate totalLabelCount []) staticLabelValues,
          usersUpdated = Map.empty,
          metrics = m\<rparr>)"

text \<open>
  \<open>processSource\<close>: \<open>t\<close> holds the lines that the follower delivers until its channel
  is closed, \<open>m\<close> the metrics collection as the source finds it. The result is the
  error returned, \<open>None\<close> for \<open>nil\<close>, and the metrics collection as the source leaves it.
\<close>

definition processSource ::
  "'rc relabeling_pkg \<Rightarrow> (string \<Rightarrow> 'f option) \<Rightarrow> 'rc NamespaceConfig \<Rightarrow>
     (string \<times> 64 word) list \<Rightarrow> (string \<Rightarrow> error + fields) \<Rightarrow> ('f::{zero,plus}) update list \<Rightarrow>
     bool \<Rightarrow> error option \<times> 'f update list" where
  "processSource pkg P nsCfg t parser m hasCounterOnlyLabels =
     (let relabelings = sourceRelabelings pkg nsCfg;
          staticLabelValues = OrderedLabelValues nsCfg;
          totalLabelCount = length staticLabelValues + length relabelings;
          relabelLabelOffset = length staticLabelValues
      in if totalLabelCount > maxStaticLabels
         then (Some (LabelCountExceeded maxStaticLabels), m)
         else (None,
               metrics (processLines pkg P nsCfg parser hasCounterOnlyLabels relabelings
                          relabelLabelOffset t (initialPipeline pkg nsCfg m))))"

section \<open>A reader of decimal literals\<close>

text \<open>
  The evaluations below need one definite reader in the place of
  \<open>strconv.ParseFloat\<close>: this one reads an optional sign, digits and an optional
  fraction, into the rational number they denote. On such literals \<open>ParseFloat\<close>
  returns that number rounded to the nearest \<open>float64\<close>.
\<close>

definition isDigit :: "char \<Rightarrow> bool" where
  "isDigit c = (CHR ''0'' \<le> c \<and> c \<le> CHR ''9'')"

definition digitsValue :: "string \<Rightarrow> nat" where
  "digitsValue ds = foldl (\<lambda>a c. 10 * a + (of_char c - 48)) 0 ds"

definition unsignedDecimal :: "string \<Rightarrow> rat option" where
  "unsignedDecimal s =
     (let ip = takeWhile isDigit s; rest = dropWhile isDigit s
      in case rest of
           [] \<Rightarrow> if ip = [] then None else Some (of_nat (digitsValue ip))
         | c # fp \<Rightarrow>
             if c = CHR ''.'' \<and> list_all isDigit fp \<and> (ip \<noteq> [] \<or> fp \<noteq> [])
             then Some (of_nat (digitsValue ip) + of_nat (digitsValue fp) / 10 ^ length fp)
             else None)"

definition decimalLiteral :: "string \<Rightarrow> rat option" where
  "decimalLiteral s =
     (case s of
        [] \<Rightarrow> None
      | c # cs \<Rightarrow>
          if c = CHR ''-'' then map_option uminus (unsignedDecimal cs)
          else if c = CHR ''+'' then unsignedDecimal cs
          else unsignedDecimal s)"

section \<open>The specification's notions\<close>

text \<open>
  These definitions follow the wording of the specification, and the theorems compare
  the functions above with them.

  The entries of a multi-value field: its value split at commas and colons, each token
  trimmed, without the tokens that are the placeholder \<open>-\<close>.
\<close>

definition spec_tokens :: "string \<Rightarrow> string list" where
  "spec_tokens val = map TrimSpace (FieldsFunc val (\<lambda>r. r = CHR '','' \<or> r = CHR '':''))"

definition spec_entries :: "string \<Rightarrow> string list" where
  "spec_entries val = filter (\<lambda>v. v \<noteq> ''-'') (spec_tokens val)"

text \<open>A well-known field whose metric is disabled.\<close>

definition spec_disabled :: "MetricsConfig \<Rightarrow> string \<Rightarrow> bool" where
  "spec_disabled mc field =
     (field = ''body_bytes_sent'' \<and> DisableResponseBytesTotal mc \<or>
      field = ''request_length'' \<and> DisableRequestBytesTotal mc \<or>
      field = ''upstream_response_time'' \<and> DisableUpstreamSeconds mc \<or>
      field = ''upstream_connect_time'' \<and> DisableUpstreamConnectSeconds mc \<or>
      field = ''request_time'' \<and> DisableResponseSeconds mc)"

text \<open>
  The recognized numeric fields in the order in which a line observes them, the
  extractor of each, and the updates that one field contributes to a line.
\<close>

definition spec_numericFields :: "string list" where
  "spec_numericFields =
     [''body_bytes_sent'', ''request_length'', ''upstream_response_time'',
      ''upstream_connect_time'', ''request_time'']"

definition spec_extractor ::
  "(string \<Rightarrow> 'f option) \<Rightarrow> string \<Rightarrow> fields \<Rightarrow> string \<Rightarrow> ('f::{zero,plus}) extraction" where
  "spec_extractor P name =
     (if name = ''upstream_response_time'' \<or> name = ''upstream_connect_time''
      then floatFromFieldsMulti P else floatFromFields P)"

definition spec_fieldUpdates ::
  "string list \<Rightarrow> string \<Rightarrow> 'f \<Rightarrow> 'f update list" where
  "spec_fieldUpdates labels name =
     (if name = ''body_bytes_sent'' then (\<lambda>v. [ResponseBytesTotal_Add labels v])
      else if name = ''request_length'' then (\<lambda>v. [RequestBytesTotal_Add labels v])
      else if name = ''upstream_response_time''
        then (\<lambda>v. [UpstreamSeconds_Observe labels v, UpstreamSecondsHist_Observe labels v])
      else if name = ''upstream_connect_time''
        then (\<lambda>v. [UpstreamConnectSeconds_Observe labels v,
                    UpstreamConnectSecondsHist_Observe labels v])
      else if name = ''request_time''
        then (\<lambda>v. [ResponseSeconds_Observe labels v, ResponseSecondsHist_Observe labels v])
      else (\<lambda>v. []))"

definition spec_fieldBlock ::
  "(string \<Rightarrow> 'f option) \<Rightarrow> fields \<Rightarrow> string list \<Rightarrow> string \<Rightarrow> ('f::{zero,plus}) update list" where
  "spec_fieldBlock P flds labels name =
     observeInto flds name (spec_extractor P name) (spec_fieldUpdates labels name) []"

text \<open>
  The label values of a line: the label vector after the relabelings have read the
  filtered fields, and the vector that the metrics other than the total count get.
\<close>

definition spec_labelValues ::
  "'rc NamespaceConfig \<Rightarrow> Relabeling list \<Rightarrow> nat \<Rightarrow> fields \<Rightarrow> string list \<Rightarrow> string list" where
  "spec_labelValues nsCfg relabelings off parsed lv =
     relabelLoop off (filterFields parsed nsCfg) 0 relabelings lv"

definition spec_otherLabels ::
  "'rc relabeling_pkg \<Rightarrow> 'rc NamespaceConfig \<Rightarrow> bool \<Rightarrow> Relabeling list \<Rightarrow> nat \<Rightarrow> fields \<Rightarrow>
     string list \<Rightarrow> string list" where
  "spec_otherLabels pkg nsCfg hasCounterOnlyLabels relabelings off parsed lv =
     (if hasCounterOnlyLabels
      then StripOnlyCounterValues pkg (spec_labelValues nsCfg relabelings off parsed lv) relabelings
      else spec_labelValues nsCfg relabelings off parsed lv)"


section \<open>Values for the evaluations\<close>

definition exampleMetricsConfig :: MetricsConfig where
  "exampleMetricsConfig =
     \<lparr>CurrentUserInterval = 60, DisableCountTotal = False,
      DisableResponseBytesTotal = False, DisableRequestBytesTotal = False,
      DisableUpstreamSeconds = False, DisableUpstreamConnectSeconds = False,
      DisableResponseSeconds = True\<rparr>"

definition exampleConfig :: "unit NamespaceConfig" where
  "exampleConfig =
     \<lparr>Labels = [(''zone'', ''eu''), (''app'', ''web''), (''env'', ''prod'')],
      RelabelConfigs = [],
      MetricsConfig = exampleMetricsConfig,
      PrintLog = False,
      OrderedLabelNames = [''app'', ''env'', ''zone''],
      OrderedLabelValues = [''web'', ''prod'', ''eu'']\<rparr>"

text \<open>One relabeling, from the field \<open>status\<close>, which accepts three-digit values only.\<close>

definition exampleRelabeling :: Relabeling where
  "exampleRelabeling =
     \<lparr>SourceValue = ''status'', OnlyCounter = False,
      Map = (\<lambda>s. if length s = 3 then Inr s else Inl (ForeignError s))\<rparr>"

definition examplePkg :: "unit relabeling_pkg" where
  "examplePkg =
     \<lparr>NewRelabelings = (\<lambda>cfgs. []),
      DefaultRelabelings = [exampleRelabeling],
      UniqueRelabelings = (\<lambda>rs. rs),
      StripExcluded = (\<lambda>rs. rs),
      StripOnlyCounterValues = (\<lambda>vs rs. vs)\<rparr>"

text \<open>
  A parser of lines \<open>status,bytes\<close>: it fails on a line without a comma, and leaves
  out the field \<open>status\<close> where it is empty.
\<close>

definition exampleParser :: "string \<Rightarrow> error + fields" where
  "exampleParser line =
     (if CHR '','' \<notin> set line then Inl (ForeignError line)
      else (let st = takeWhile (\<lambda>c. c \<noteq> CHR '','') line;
                bytes = tl (dropWhile (\<lambda>c. c \<noteq> CHR '','') line)
            in Inr (if st = [] then [''body_bytes_sent'' \<mapsto> bytes]
                    else [''status'' \<mapsto> st, ''body_bytes_sent'' \<mapsto> bytes])))"




section \<open>Trimming stops\<close>

lemma dropSpace_shorter:
  "dropSpace ws s = Some s' \<Longrightarrow> [] \<notin> set ws \<Longrightarrow> length s' < length s"
proof (induction ws)
  case Nil
  then show ?case by simp
next
  case (Cons w ws)
  show ?case
  proof (cases "take (length w) s = w")
    case True
    then have "length (take (length w) s) = length w" by simp
    then have "length w \<le> length s" by simp
    moreover have "w \<noteq> []" using Cons.prems(2) by auto
    moreover have "s' = drop (length w) s" using Cons.prems(1) True by simp
    ultimately show ?thesis by (cases s) auto
  next
    case False
    then show ?thesis using Cons by simp
  qed
qed

lemma unicodeSpaces_nonempty: "[] \<notin> set unicodeSpaces" "[] \<notin> set (map rev unicodeSpaces)"
  by (simp_all add: unicodeSpaces_def)

text \<open>
  With \<open>length s\<close> rounds nothing is left to trim: the bound on the rounds cuts no
  trimming short.
\<close>

lemma trimLeftN_done:
  "length s \<le> n \<Longrightarrow> dropSpace unicodeSpaces (trimLeftN n s) = None"
proof (induction n arbitrary: s)
  case 0
  then show ?case by (simp add: unicodeSpaces_def)
next
  case (Suc n)
  show ?case
  proof (cases "dropSpace unicodeSpaces s")
    case None
    then show ?thesis by simp
  next
    case (Some s')
    then have "length s' < length s"
      by (rule dropSpace_shorter) (rule unicodeSpaces_nonempty)
    with Suc.prems have "length s' \<le> n" by simp
    with Some Suc.IH show ?thesis by simp
  qed
qed

lemma trimRightN_done:
  "length s \<le> n \<Longrightarrow> dropSpace (map rev unicodeSpaces) (trimRightN n s) = None"
proof (induction n arbitrary: s)
  case 0
  then show ?case by (simp add: unicodeSpaces_def)
next
  case (Suc n)
  show ?case
  proof (cases "dropSpace (map rev unicodeSpaces) s")
    case None
    then show ?thesis by simp
  next
    case (Some s')
    then have "length s' < length s"
      by (rule dropSpace_shorter) (rule unicodeSpaces_nonempty)
    with Suc.prems have "length s' \<le> n" by simp
    with Some Suc.IH show ?thesis by simp
  qed
qed

lemma TrimLeftSpace_done: "dropSpace unicodeSpaces (TrimLeftSpace s) = None"
  by (simp add: TrimLeftSpace_def trimLeftN_done)

lemma TrimRightSpace_done: "dropSpace (map rev unicodeSpaces) (rev (TrimRightSpace s)) = None"
  by (simp add: TrimRightSpace_def trimRightN_done)

lemmas string_defs =
  FieldsFunc_def TrimSpace_def TrimLeftSpace_def TrimRightSpace_def unicodeSpaces_def
  spec_entries_def spec_tokens_def

lemmas decimal_defs = decimalLiteral_def unsignedDecimal_def isDigit_def digitsValue_def

section \<open>The multi-value extractor\<close>

text \<open>The loop with its early return, as a sum over the entries when all of them parse.\<close>

lemma sumTokens_those:
  "sumTokens P val acc vs =
     (case those (map P (filter (\<lambda>v. v \<noteq> ''-'') (map TrimSpace vs))) of
        None \<Rightarrow> (0, False, Some (FloatParseError val))
      | Some fs \<Rightarrow> (foldl (+) acc fs, True, None))"
  by (induction vs arbitrary: acc) (simp_all add: Let_def split: option.splits)

lemma those_None_iff: "those xs = None \<longleftrightarrow> None \<in> set xs"
  by (induction xs) (auto split: option.splits)

lemma those_map_Some: "those (map Some fs) = Some fs"
  by (induction fs) simp_all

lemma floatFromFieldsMulti_cases:
  assumes "flds name = Some val"
  shows "floatFromFieldsMulti P flds name =
     (if val = ''-'' then (0, False, None)
      else case P val of
             Some f \<Rightarrow> (f, True, None)
           | None \<Rightarrow>
               (case those (map P (spec_entries val)) of
                  None \<Rightarrow> (0, False, Some (FloatParseError val))
                | Some fs \<Rightarrow> (foldl (+) 0 fs, True, None)))"
  using assms
  by (simp add: floatFromFieldsMulti_def floatFromFields_def sumTokens_those
        spec_entries_def spec_tokens_def split: option.splits)

lemma observeInto_error:
  "extractor flds name = (x, False, Some e) \<Longrightarrow>
   observeInto flds name extractor upd m = m @ [ParseErrorsTotal_Inc]"
  by (simp add: observeInto_def observeMetrics_def)

lemma observeInto_ok:
  "extractor flds name = (x, True, e) \<Longrightarrow>
   observeInto flds name extractor upd m = m @ upd x"
  by (simp add: observeInto_def observeMetrics_def)

lemma observeInto_skip:
  "extractor flds name = (x, False, None) \<Longrightarrow>
   observeInto flds name extractor upd m = m"
  by (simp add: observeInto_def observeMetrics_def)

text \<open>
  C1, as amended. For a multi-value field (\<open>upstream_response_time\<close> or
  \<open>upstream_connect_time\<close>, the two fields extracted with \<open>floatFromFieldsMulti\<close>)
  that is present with value \<open>val\<close>: if \<open>val\<close> is exactly \<open>-\<close>, nothing is observed and
  there is no error; if the whole of \<open>val\<close> parses as one float, that float is the
  observation; otherwise, if every entry (the tokens between commas and colons,
  trimmed, without the tokens \<open>-\<close>) parses, the observation is the sum of the entries,
  added from the left starting at 0; and if some entry does not parse, the extractor
  returns the error, no observation is recorded for the field and the parse-error
  counter is incremented.
\<close>

theorem multi_value_sum:
  assumes "flds name = Some val"
  shows "(val = ''-'' \<longrightarrow> floatFromFieldsMulti P flds name = (0, False, None)) \<and>
    (val \<noteq> ''-'' \<and> P val = Some f \<longrightarrow> floatFromFieldsMulti P flds name = (f, True, None)) \<and>
    (val \<noteq> ''-'' \<and> P val = None \<and> map P (spec_entries val) = map Some fs \<longrightarrow>
       floatFromFieldsMulti P flds name = (foldl (+) 0 fs, True, None)) \<and>
    (val \<noteq> ''-'' \<and> P val = None \<and> (\<exists>v \<in> set (spec_entries val). P v = None) \<longrightarrow>
       floatFromFieldsMulti P flds name = (0, False, Some (FloatParseError val)) \<and>
       observeInto flds name (floatFromFieldsMulti P) upd m = m @ [ParseErrorsTotal_Inc])"
proof -
  note c = floatFromFieldsMulti_cases [where flds = flds and name = name and P = P, OF assms]
  have 1: "val = ''-'' \<longrightarrow> floatFromFieldsMulti P flds name = (0, False, None)"
    by (simp add: c)
  have 2: "val \<noteq> ''-'' \<and> P val = Some f \<longrightarrow> floatFromFieldsMulti P flds name = (f, True, None)"
    by (simp add: c)
  have 3: "val \<noteq> ''-'' \<and> P val = None \<and> map P (spec_entries val) = map Some fs \<longrightarrow>
           floatFromFieldsMulti P flds name = (foldl (+) 0 fs, True, None)"
    by (simp add: c those_map_Some)
  have 4: "val \<noteq> ''-'' \<and> P val = None \<and> (\<exists>v \<in> set (spec_entries val). P v = None) \<longrightarrow>
           floatFromFieldsMulti P flds name = (0, False, Some (FloatParseError val)) \<and>
           observeInto flds name (floatFromFieldsMulti P) upd m = m @ [ParseErrorsTotal_Inc]"
  proof (intro impI, elim conjE)
    assume a: "val \<noteq> ''-''" "P val = None" "\<exists>v \<in> set (spec_entries val). P v = None"
    then have "None \<in> set (map P (spec_entries val))" by force
    then have "those (map P (spec_entries val)) = None" by (simp only: those_None_iff)
    with a have r: "floatFromFieldsMulti P flds name = (0, False, Some (FloatParseError val))"
      by (simp add: c)
    then show "floatFromFieldsMulti P flds name = (0, False, Some (FloatParseError val)) \<and>
           observeInto flds name (floatFromFieldsMulti P) upd m = m @ [ParseErrorsTotal_Inc]"
      by (simp add: observeInto_error)
  qed
  from 1 2 3 4 show ?thesis by blast
qed

text \<open>
  The three values of the specification, read with the decimal reader:
  \<open>0.001,0.002:0.003\<close> gives 0.006, \<open>0.001, -, 0.002\<close> gives 0.003, and
  \<open>0.001,x,0.002\<close> gives the error, one increment of the parse-error counter and no
  observation.
\<close>

theorem multi_value_sum_witness:
  "floatFromFieldsMulti decimalLiteral [''upstream_response_time'' \<mapsto> ''0.001,0.002:0.003'']
      ''upstream_response_time'' = (6 / 1000, True, None) \<and>
   floatFromFieldsMulti decimalLiteral [''upstream_response_time'' \<mapsto> ''0.001, -, 0.002'']
      ''upstream_response_time'' = (3 / 1000, True, None) \<and>
   floatFromFieldsMulti decimalLiteral [''upstream_response_time'' \<mapsto> ''0.001,x,0.002'']
      ''upstream_response_time'' = (0, False, Some (FloatParseError ''0.001,x,0.002'')) \<and>
   observeInto [''upstream_response_time'' \<mapsto> ''0.001,x,0.002''] ''upstream_response_time''
      (floatFromFieldsMulti decimalLiteral) (\<lambda>v. [UpstreamSeconds_Observe [] v]) []
     = [ParseErrorsTotal_Inc]"
proof -
  have a: "[''upstream_response_time'' \<mapsto> ''0.001,0.002:0.003''] ''upstream_response_time''
             = Some ''0.001,0.002:0.003''" by simp
  have b: "[''upstream_response_time'' \<mapsto> ''0.001, -, 0.002''] ''upstream_response_time''
             = Some ''0.001, -, 0.002''" by simp
  have c: "[''upstream_response_time'' \<mapsto> ''0.001,x,0.002''] ''upstream_response_time''
             = Some ''0.001,x,0.002''" by simp
  have e1: "spec_entries ''0.001,0.002:0.003'' = [''0.001'', ''0.002'', ''0.003'']"
    by (simp add: string_defs)
  have e2: "spec_entries ''0.001, -, 0.002'' = [''0.001'', ''0.002'']"
    by (simp add: string_defs)
  have e3: "spec_entries ''0.001,x,0.002'' = [''0.001'', ''x'', ''0.002'']"
    by (simp add: string_defs)
  show ?thesis
    using multi_value_sum [where flds = "[''upstream_response_time'' \<mapsto> ''0.001,0.002:0.003'']"
            and name = "''upstream_response_time''" and P = decimalLiteral
            and fs = "[1/1000, 2/1000, 3/1000]", OF a]
          multi_value_sum [where flds = "[''upstream_response_time'' \<mapsto> ''0.001, -, 0.002'']"
            and name = "''upstream_response_time''" and P = decimalLiteral
            and fs = "[1/1000, 2/1000]", OF b]
          multi_value_sum [where flds = "[''upstream_response_time'' \<mapsto> ''0.001,x,0.002'']"
            and name = "''upstream_response_time''" and P = decimalLiteral
            and upd = "\<lambda>v. [UpstreamSeconds_Observe [] v]" and m = "[]", OF c]
    by (simp add: e1 e2 e3 decimal_defs)
qed

text \<open>
  The claim as it is written fails where the value is the placeholder \<open>-\<close> alone: the
  value has no entry, so the sum of its entries is the empty sum, but the extractor
  reports no observation at all, and nothing is observed.
\<close>

theorem multi_value_dash_counterexample:
  "spec_entries ''-'' = [] \<and>
   floatFromFieldsMulti decimalLiteral [''upstream_response_time'' \<mapsto> ''-'']
      ''upstream_response_time'' = (0, False, None) \<and>
   floatFromFieldsMulti decimalLiteral [''upstream_response_time'' \<mapsto> ''-'']
      ''upstream_response_time'' \<noteq> (foldl (+) 0 [], True, None) \<and>
   observeInto [''upstream_response_time'' \<mapsto> ''-''] ''upstream_response_time''
      (floatFromFieldsMulti decimalLiteral)
      (\<lambda>v. [UpstreamSeconds_Observe [] v, UpstreamSecondsHist_Observe [] v]) [] = []"
  by (simp add: floatFromFieldsMulti_def floatFromFields_def observeInto_def
        observeMetrics_def string_defs)

text \<open>
  C10, as amended. For a multi-value field that is present with a value other than
  \<open>-\<close> alone, that does not parse as one float and has no entry (the empty string, or
  a value whose every trimmed token is \<open>-\<close>, such as \<open>-,-\<close>), the multi-value
  extractor returns \<open>(0, true, nil)\<close>, so that the updates of the field are made with
  the observation 0; the single-value extractor, at the value \<open>-\<close>, reports no
  observation and nothing is updated.
\<close>

theorem multi_value_no_entries:
  assumes "flds name = Some val" and "val \<noteq> ''-''" and "P val = None"
    and "spec_entries val = []"
  shows "floatFromFieldsMulti P flds name = (0, True, None) \<and>
         observeInto flds name (floatFromFieldsMulti P) upd m = m @ upd 0 \<and>
         floatFromFields P (flds(name \<mapsto> ''-'')) name = (0, False, None) \<and>
         observeInto (flds(name \<mapsto> ''-'')) name (floatFromFields P) upd m = m"
proof -
  have r: "floatFromFieldsMulti P flds name = (0, True, None)"
    using assms(2-4)
    by (simp add: floatFromFieldsMulti_cases [where flds = flds and name = name and P = P,
          OF assms(1)])
  have s: "floatFromFields P (flds(name \<mapsto> ''-'')) name = (0, False, None)"
    by (simp add: floatFromFields_def)
  from r s show ?thesis
    by (simp add: observeInto_ok observeInto_skip)
qed

theorem multi_value_no_entries_witness:
  "floatFromFieldsMulti decimalLiteral [''upstream_connect_time'' \<mapsto> ''-,-'']
      ''upstream_connect_time'' = (0, True, None) \<and>
   observeInto [''upstream_connect_time'' \<mapsto> ''-,-''] ''upstream_connect_time''
      (floatFromFieldsMulti decimalLiteral)
      (\<lambda>v. [UpstreamConnectSeconds_Observe [] v, UpstreamConnectSecondsHist_Observe [] v]) []
     = [UpstreamConnectSeconds_Observe [] 0, UpstreamConnectSecondsHist_Observe [] 0] \<and>
   floatFromFieldsMulti decimalLiteral [''upstream_connect_time'' \<mapsto> []]
      ''upstream_connect_time'' = (0, True, None) \<and>
   floatFromFields decimalLiteral [''upstream_connect_time'' \<mapsto> ''-'']
      ''upstream_connect_time'' = (0, False, None)"
proof -
  have a: "[''upstream_connect_time'' \<mapsto> ''-,-''] ''upstream_connect_time'' = Some ''-,-''"
    by simp
  have b: "[''upstream_connect_time'' \<mapsto> []] ''upstream_connect_time'' = Some []"
    by simp
  have n: "''-,-'' \<noteq> ''-''" "[] \<noteq> ''-''" by simp_all
  have p: "decimalLiteral ''-,-'' = None" "decimalLiteral [] = None"
    by (simp_all add: decimal_defs)
  have e: "spec_entries ''-,-'' = []" "spec_entries [] = []"
    by (simp_all add: string_defs)
  show ?thesis
    using multi_value_no_entries [where flds = "[''upstream_connect_time'' \<mapsto> ''-,-'']"
            and name = "''upstream_connect_time''" and P = decimalLiteral and m = "[]"
            and upd = "\<lambda>v. [UpstreamConnectSeconds_Observe [] v,
                             UpstreamConnectSecondsHist_Observe [] v]",
            OF a n(1) p(1) e(1)]
          multi_value_no_entries [where flds = "[''upstream_connect_time'' \<mapsto> []]"
            and name = "''upstream_connect_time''" and P = decimalLiteral, OF b n(2) p(2) e(2)]
    by simp
qed

text \<open>
  The claim as it is written fails at the value \<open>-\<close>: its one token is the
  placeholder, yet the multi-value extractor does not return \<open>(0, true, nil)\<close>, and no
  observation is added.
\<close>

theorem multi_value_only_dash_counterexample:
  "spec_tokens ''-'' = [''-''] \<and>
   floatFromFieldsMulti decimalLiteral [''upstream_connect_time'' \<mapsto> ''-'']
      ''upstream_connect_time'' \<noteq> (0, True, None) \<and>
   observeInto [''upstream_connect_time'' \<mapsto> ''-''] ''upstream_connect_time''
      (floatFromFieldsMulti decimalLiteral)
      (\<lambda>v. [UpstreamConnectSeconds_Observe [] v, UpstreamConnectSecondsHist_Observe [] v]) []
     = []"
  by (simp add: floatFromFieldsMulti_def floatFromFields_def observeInto_def
        observeMetrics_def string_defs)

section \<open>The numeric fields of a line\<close>

lemma observeInto_append:
  "observeInto flds name extractor upd m = m @ observeInto flds name extractor upd []"
  by (simp add: observeInto_def observeMetrics_def split: prod.splits)

lemma observeNumeric_blocks:
  "observeNumeric P flds labels m =
     m @ concat (map (spec_fieldBlock P flds labels) spec_numericFields)"
proof -
  define b1 where "b1 = observeInto flds ''body_bytes_sent'' (floatFromFields P)
                 (\<lambda>v. [ResponseBytesTotal_Add labels v])"
  define b2 where "b2 = observeInto flds ''request_length'' (floatFromFields P)
                 (\<lambda>v. [RequestBytesTotal_Add labels v])"
  define b3 where "b3 = observeInto flds ''upstream_response_time'' (floatFromFieldsMulti P)
                 (\<lambda>v. [UpstreamSeconds_Observe labels v,
                        UpstreamSecondsHist_Observe labels v])"
  define b4 where "b4 = observeInto flds ''upstream_connect_time'' (floatFromFieldsMulti P)
                 (\<lambda>v. [UpstreamConnectSeconds_Observe labels v,
                        UpstreamConnectSecondsHist_Observe labels v])"
  define b5 where "b5 = observeInto flds ''request_time'' (floatFromFields P)
           (\<lambda>v. [ResponseSeconds_Observe labels v,
                  ResponseSecondsHist_Observe labels v])"
  have e: "b1 x = x @ b1 []" "b2 x = x @ b2 []" "b3 x = x @ b3 []" "b4 x = x @ b4 []"
    "b5 x = x @ b5 []" for x
    unfolding b1_def b2_def b3_def b4_def b5_def by (rule observeInto_append)+
  have "observeNumeric P flds labels m = b5 (b4 (b3 (b2 (b1 m))))"
    by (simp add: observeNumeric_def b1_def b2_def b3_def b4_def b5_def)
  also have "\<dots> = m @ b1 [] @ b2 [] @ b3 [] @ b4 [] @ b5 []"
    by (subst e(5), subst e(4), subst e(3), subst e(2), subst e(1)) simp
  also have "\<dots> = m @ concat (map (spec_fieldBlock P flds labels) spec_numericFields)"
    by (simp add: spec_numericFields_def spec_fieldBlock_def spec_extractor_def
          spec_fieldUpdates_def b1_def b2_def b3_def b4_def b5_def)
  finally show ?thesis .
qed

lemma floatFromFields_err: "floatFromFields P flds name = (x, ok, Some e) \<Longrightarrow> \<not> ok"
  by (auto simp: floatFromFields_def split: option.splits if_splits)

lemma sumTokens_err: "sumTokens P val acc vs = (x, ok, Some e) \<Longrightarrow> \<not> ok"
  by (induction vs arbitrary: acc) (auto simp: Let_def split: option.splits if_splits)

lemma floatFromFieldsMulti_err: "floatFromFieldsMulti P flds name = (x, ok, Some e) \<Longrightarrow> \<not> ok"
  by (auto simp: floatFromFieldsMulti_def dest: sumTokens_err split: option.splits prod.splits)

lemma spec_extractor_err: "spec_extractor P name flds name = (x, ok, Some e) \<Longrightarrow> \<not> ok"
  by (auto simp: spec_extractor_def dest: floatFromFields_err floatFromFieldsMulti_err
      split: if_splits)



text \<open>A line that parses, field by field of the resulting state.\<close>

lemma processLine_parsed:
  assumes "parser line = Inr parsed"
  shows "labelValues (processLine pkg P nsCfg parser h rs off (line, now) st)
           = spec_labelValues nsCfg rs off parsed (labelValues st)"
    and "usersUpdated (processLine pkg P nsCfg parser h rs off (line, now) st)
           = fst (observeUsers nsCfg (filterFields parsed nsCfg)
                (spec_otherLabels pkg nsCfg h rs off parsed (labelValues st)) now
                (usersUpdated st, []))"
    and "metrics (processLine pkg P nsCfg parser h rs off (line, now) st)
           = metrics st @
        (if DisableCountTotal (MetricsConfig nsCfg) then []
         else [CountTotal_Inc (spec_labelValues nsCfg rs off parsed (labelValues st))]) @
        snd (observeUsers nsCfg (filterFields parsed nsCfg)
          (spec_otherLabels pkg nsCfg h rs off parsed (labelValues st)) now (usersUpdated st, [])) @
        concat (map (spec_fieldBlock P (filterFields parsed nsCfg)
          (spec_otherLabels pkg nsCfg h rs off parsed (labelValues st))) spec_numericFields)"
  using assms
  by (simp_all add: processLine_def Let_def spec_labelValues_def spec_otherLabels_def
        observeNumeric_blocks observeUsers_def split: prod.splits)














section \<open>The field filter\<close>

text \<open>
  C3. The filtered mapping holds a field with a value exactly when the parsed mapping
  holds the field with that value and the field is not one of the five well-known
  fields with its disable flag set. So the field of a disabled metric is absent from
  the mapping that relabeling and aggregation read, and no value is altered.
\<close>

theorem filterFields_iff:
  "(filterFields flds nsCfg field = Some v \<longleftrightarrow>
      flds field = Some v \<and> \<not> spec_disabled (MetricsConfig nsCfg) field) \<and>
   (spec_disabled (MetricsConfig nsCfg) field \<longrightarrow> filterFields flds nsCfg field = None)"
  by (cases "flds field") (auto simp: filterFields_def spec_disabled_def Let_def)

theorem filterFields_iff_witness:
  "filterFields [''request_time'' \<mapsto> ''0.045'', ''status'' \<mapsto> ''200''] exampleConfig
     ''request_time'' = None \<and>
   filterFields [''request_time'' \<mapsto> ''0.045'', ''status'' \<mapsto> ''200''] exampleConfig
     ''status'' = Some ''200''"
proof -
  have d: "spec_disabled (MetricsConfig exampleConfig) ''request_time''"
    by (simp add: spec_disabled_def exampleConfig_def exampleMetricsConfig_def)
  have n: "\<not> spec_disabled (MetricsConfig exampleConfig) ''status''"
    by (simp add: spec_disabled_def)
  show ?thesis
    using filterFields_iff [of "[''request_time'' \<mapsto> ''0.045'', ''status'' \<mapsto> ''200'']"
            exampleConfig "''request_time''" "''0.045''"]
          filterFields_iff [of "[''request_time'' \<mapsto> ''0.045'', ''status'' \<mapsto> ''200'']"
            exampleConfig "''status''" "''200''"]
          d n
    by simp
qed

section \<open>The label count\<close>

text \<open>
  C4. If the static labels and the relabelings of a source (those left after the
  excluded ones are stripped) are more than 128 together, \<open>processSource\<close> returns the
  error whatever lines the source has, and the metrics collection is as it was; if
  they are at most 128, 128 included, \<open>processSource\<close> returns no error.
\<close>

theorem label_count_limit:
  "(length (OrderedLabelValues nsCfg) + length (sourceRelabelings pkg nsCfg) > 128 \<longrightarrow>
      processSource pkg P nsCfg t parser m hasCounterOnlyLabels
        = (Some (LabelCountExceeded 128), m)) \<and>
   (length (OrderedLabelValues nsCfg) + length (sourceRelabelings pkg nsCfg) \<le> 128 \<longrightarrow>
      fst (processSource pkg P nsCfg t parser m hasCounterOnlyLabels) = None)"
  by (simp add: processSource_def maxStaticLabels_def Let_def)

text \<open>With one relabeling, 128 static labels are too many and 127 are not.\<close>

theorem label_count_limit_witness:
  "processSource examplePkg decimalLiteral
      (exampleConfig\<lparr>OrderedLabelValues := replicate 128 ''x''\<rparr>)
      [(''200,512'', 0)] exampleParser [] False
     = (Some (LabelCountExceeded 128), []) \<and>
   fst (processSource examplePkg decimalLiteral
          (exampleConfig\<lparr>OrderedLabelValues := replicate 127 ''x''\<rparr>)
          [(''200,512'', 0)] exampleParser [] False) = None"
proof -
  have r: "length (sourceRelabelings examplePkg c) = 1" for c
    by (simp add: sourceRelabelings_def examplePkg_def)
  show ?thesis
    using label_count_limit [of "exampleConfig\<lparr>OrderedLabelValues := replicate 128 ''x''\<rparr>"
            examplePkg decimalLiteral "[(''200,512'', 0)]" exampleParser "[]" False]
          label_count_limit [of "exampleConfig\<lparr>OrderedLabelValues := replicate 127 ''x''\<rparr>"
            examplePkg decimalLiteral "[(''200,512'', 0)]" exampleParser "[]" False]
    by (simp add: r)
qed

section \<open>Lines that do not parse\<close>

lemma processLines_append:
  "processLines pkg P nsCfg parser h rs off (t @ u) st
     = processLines pkg P nsCfg parser h rs off u (processLines pkg P nsCfg parser h rs off t st)"
  by (induction t arbitrary: st) simp_all

lemma initialPipeline_metrics:
  "(initialPipeline pkg nsCfg m)\<lparr>metrics := metrics (initialPipeline pkg nsCfg m) @ x\<rparr>
     = initialPipeline pkg nsCfg (m @ x)"
  by (simp add: initialPipeline_def Let_def)

text \<open>
  C5. For a line on which the line parser fails, the loop body does one thing: it
  increments the parse-error counter, once. The label values and the users are as
  before and no other metric is updated, and the loop goes on with the lines that
  follow. For the source as a whole (its label count within the limit): a source
  whose only line fails leaves one increment and returns no error; a failing first
  line amounts to one increment before the lines that follow; and a failing line
  after the lines \<open>t\<close> adds one increment to what \<open>t\<close> leaves, the result being no
  error.
\<close>

theorem parser_failure_skips_line:
  assumes "parser line = Inl err"
  shows "processLine pkg P nsCfg parser hasCounterOnlyLabels relabelings relabelLabelOffset
           (line, now) st
         = st\<lparr>metrics := metrics st @ [ParseErrorsTotal_Inc]\<rparr> \<and>
         processLines pkg P nsCfg parser hasCounterOnlyLabels relabelings relabelLabelOffset
           ((line, now) # rest) st
         = processLines pkg P nsCfg parser hasCounterOnlyLabels relabelings relabelLabelOffset
             rest (st\<lparr>metrics := metrics st @ [ParseErrorsTotal_Inc]\<rparr>) \<and>
         (length (OrderedLabelValues nsCfg) + length (sourceRelabelings pkg nsCfg)
            \<le> maxStaticLabels \<longrightarrow>
          fst (processSource pkg P nsCfg ((line, now) # rest) parser m hasCounterOnlyLabels)
            = None \<and>
          processSource pkg P nsCfg [(line, now)] parser m hasCounterOnlyLabels
            = (None, m @ [ParseErrorsTotal_Inc]) \<and>
          processSource pkg P nsCfg ((line, now) # rest) parser m hasCounterOnlyLabels
            = processSource pkg P nsCfg rest parser (m @ [ParseErrorsTotal_Inc])
                hasCounterOnlyLabels \<and>
          processSource pkg P nsCfg (t @ [(line, now)]) parser m hasCounterOnlyLabels
            = (None,
               snd (processSource pkg P nsCfg t parser m hasCounterOnlyLabels)
                 @ [ParseErrorsTotal_Inc]))"
proof -
  have l: "processLine pkg P nsCfg parser h rs off (line, now) s
         = s\<lparr>metrics := metrics s @ [ParseErrorsTotal_Inc]\<rparr>" for h rs off s
    using assms by (simp add: processLine_def)
  show ?thesis
    by (simp add: l processSource_def Let_def processLines_append initialPipeline_metrics)
       (simp add: initialPipeline_def Let_def)
qed

theorem parser_failure_skips_line_witness:
  "processLine examplePkg decimalLiteral exampleConfig exampleParser False
      [exampleRelabeling] 3 (''garbage'', 7)
      \<lparr>labelValues = [''web'', ''prod'', ''eu'', ''200''], usersUpdated = Map.empty,
       metrics = [CountTotal_Inc [''web'', ''prod'', ''eu'', ''200'']]\<rparr>
     = \<lparr>labelValues = [''web'', ''prod'', ''eu'', ''200''], usersUpdated = Map.empty,
        metrics = [CountTotal_Inc [''web'', ''prod'', ''eu'', ''200''], ParseErrorsTotal_Inc]\<rparr> \<and>
   fst (processSource examplePkg decimalLiteral exampleConfig [(''garbage'', 7)]
          exampleParser [] False) = None \<and>
   processSource examplePkg decimalLiteral exampleConfig [(''garbage'', 7)]
          exampleParser [] False = (None, [ParseErrorsTotal_Inc]) \<and>
   processSource examplePkg decimalLiteral exampleConfig [(''garbage'', 7), (''garbage'', 8)]
          exampleParser [] False = (None, [ParseErrorsTotal_Inc, ParseErrorsTotal_Inc])"
proof -
  have a: "exampleParser ''garbage'' = Inl (ForeignError ''garbage'')"
    by (simp add: exampleParser_def)
  have l: "length (OrderedLabelValues exampleConfig)
             + length (sourceRelabelings examplePkg exampleConfig) \<le> maxStaticLabels"
    by (simp add: exampleConfig_def sourceRelabelings_def examplePkg_def maxStaticLabels_def)
  note w1 = parser_failure_skips_line [where parser = exampleParser and line = "''garbage''"
            and pkg = examplePkg and P = decimalLiteral and nsCfg = exampleConfig
            and hasCounterOnlyLabels = False and relabelings = "[exampleRelabeling]"
            and relabelLabelOffset = 3 and now = 7 and rest = "[]" and m = "[]" and t = "[]"
            and st = "\<lparr>labelValues = [''web'', ''prod'', ''eu'', ''200''],
                       usersUpdated = Map.empty,
                       metrics = [CountTotal_Inc [''web'', ''prod'', ''eu'', ''200'']]\<rparr>",
            OF a]
  note w2 = parser_failure_skips_line [where parser = exampleParser and line = "''garbage''"
            and pkg = examplePkg and P = decimalLiteral and nsCfg = exampleConfig
            and hasCounterOnlyLabels = False and relabelings = "[exampleRelabeling]"
            and relabelLabelOffset = 3 and now = 8 and rest = "[]" and m = "[]"
            and t = "[(''garbage'', 7)]"
            and st = "\<lparr>labelValues = [''web'', ''prod'', ''eu'', ''200''],
                       usersUpdated = Map.empty,
                       metrics = [CountTotal_Inc [''web'', ''prod'', ''eu'', ''200'']]\<rparr>",
            OF a]
  have 1: "processSource examplePkg decimalLiteral exampleConfig [(''garbage'', 7)]
          exampleParser [] False = (None, [ParseErrorsTotal_Inc])"
    using w1 l by simp
  have 2: "processSource examplePkg decimalLiteral exampleConfig
          [(''garbage'', 7), (''garbage'', 8)] exampleParser [] False
          = (None, [ParseErrorsTotal_Inc, ParseErrorsTotal_Inc])"
    using w2 l by (simp add: 1)
  have 0: "processLine examplePkg decimalLiteral exampleConfig exampleParser False
      [exampleRelabeling] 3 (''garbage'', 7)
      \<lparr>labelValues = [''web'', ''prod'', ''eu'', ''200''], usersUpdated = Map.empty,
       metrics = [CountTotal_Inc [''web'', ''prod'', ''eu'', ''200'']]\<rparr>
     = \<lparr>labelValues = [''web'', ''prod'', ''eu'', ''200''], usersUpdated = Map.empty,
        metrics = [CountTotal_Inc [''web'', ''prod'', ''eu'', ''200''], ParseErrorsTotal_Inc]\<rparr>"
    using w1 by simp
  have 3: "fst (processSource examplePkg decimalLiteral exampleConfig [(''garbage'', 7)]
          exampleParser [] False) = None"
    by (simp add: 1)
  from 0 3 1 2 show ?thesis by blast
qed

section \<open>Current users\<close>

text \<open>
  C8. \<open>observeCurrentUsers\<close> reports no observation, and leaves the tracker as it is,
  exactly when \<open>remote_addr\<close> or \<open>http_user_agent\<close> is missing or empty; the line
  then touches neither the tracker nor the gauge, whatever the interval. Otherwise
  \<open>observeCurrentUsers\<close> stores the current time under the key
  \<open>remote_addr + "::" + http_user_agent\<close> and reports the number of keys that the
  tracker then has; where the configured interval is greater than 0 the line sets the
  gauge to that number, and where it is not, the line touches neither the tracker nor
  the gauge. A line that parses does this with its filtered fields and its label
  values, between the total count and the numeric fields.
\<close>

theorem current_users_observation:
  "((flds ''remote_addr'' = None \<or> flds ''remote_addr'' = Some [] \<or>
     flds ''http_user_agent'' = None \<or> flds ''http_user_agent'' = Some []) \<longrightarrow>
      observeCurrentUsers flds users now = ((0, False), users) \<and>
      observeUsers nsCfg flds labels now (users, m) = (users, m)) \<and>
   (flds ''remote_addr'' = Some remoteAddr \<and> remoteAddr \<noteq> [] \<and>
    flds ''http_user_agent'' = Some userAgent \<and> userAgent \<noteq> [] \<longrightarrow>
      observeCurrentUsers flds users now
        = ((card (dom (users(remoteAddr @ ''::'' @ userAgent \<mapsto> now))), True),
           users(remoteAddr @ ''::'' @ userAgent \<mapsto> now)) \<and>
      (CurrentUserInterval (MetricsConfig nsCfg) > 0 \<longrightarrow>
         observeUsers nsCfg flds labels now (users, m)
           = (users(remoteAddr @ ''::'' @ userAgent \<mapsto> now),
              m @ [CurrentUsers_Set labels
                     (card (dom (users(remoteAddr @ ''::'' @ userAgent \<mapsto> now))))]))) \<and>
   (snd (fst (observeCurrentUsers flds users now)) \<longleftrightarrow>
      \<not> (flds ''remote_addr'' = None \<or> flds ''remote_addr'' = Some [] \<or>
         flds ''http_user_agent'' = None \<or> flds ''http_user_agent'' = Some [])) \<and>
   (\<not> CurrentUserInterval (MetricsConfig nsCfg) > 0 \<longrightarrow>
      observeUsers nsCfg flds labels now (users, m) = (users, m)) \<and>
   (parser line = Inr parsed \<longrightarrow>
      usersUpdated (processLine pkg P nsCfg parser hasCounterOnlyLabels relabelings
                      relabelLabelOffset (line, now) st)
        = fst (observeUsers nsCfg (filterFields parsed nsCfg)
                 (spec_otherLabels pkg nsCfg hasCounterOnlyLabels relabelings
                    relabelLabelOffset parsed (labelValues st))
                 now (usersUpdated st, [])) \<and>
      metrics (processLine pkg P nsCfg parser hasCounterOnlyLabels relabelings
                 relabelLabelOffset (line, now) st)
        = metrics st @
          (if DisableCountTotal (MetricsConfig nsCfg) then []
           else [CountTotal_Inc (spec_labelValues nsCfg relabelings relabelLabelOffset parsed
                                   (labelValues st))]) @
          snd (observeUsers nsCfg (filterFields parsed nsCfg)
                 (spec_otherLabels pkg nsCfg hasCounterOnlyLabels relabelings
                    relabelLabelOffset parsed (labelValues st))
                 now (usersUpdated st, [])) @
          concat (map (spec_fieldBlock P (filterFields parsed nsCfg)
                         (spec_otherLabels pkg nsCfg hasCounterOnlyLabels relabelings
                            relabelLabelOffset parsed (labelValues st)))
                    spec_numericFields))"
proof -
  have a: "(flds ''remote_addr'' = None \<or> flds ''remote_addr'' = Some [] \<or>
     flds ''http_user_agent'' = None \<or> flds ''http_user_agent'' = Some []) \<longrightarrow>
      observeCurrentUsers flds users now = ((0, False), users) \<and>
      observeUsers nsCfg flds labels now (users, m) = (users, m)"
    by (auto simp: observeCurrentUsers_def observeUsers_def Let_def split: option.splits)
  have b: "flds ''remote_addr'' = Some remoteAddr \<and> remoteAddr \<noteq> [] \<and>
    flds ''http_user_agent'' = Some userAgent \<and> userAgent \<noteq> [] \<longrightarrow>
      observeCurrentUsers flds users now
        = ((card (dom (users(remoteAddr @ ''::'' @ userAgent \<mapsto> now))), True),
           users(remoteAddr @ ''::'' @ userAgent \<mapsto> now)) \<and>
      (CurrentUserInterval (MetricsConfig nsCfg) > 0 \<longrightarrow>
         observeUsers nsCfg flds labels now (users, m)
           = (users(remoteAddr @ ''::'' @ userAgent \<mapsto> now),
              m @ [CurrentUsers_Set labels
                     (card (dom (users(remoteAddr @ ''::'' @ userAgent \<mapsto> now))))]))"
    by (auto simp: observeCurrentUsers_def observeUsers_def Let_def split: option.splits)
  have c: "snd (fst (observeCurrentUsers flds users now)) \<longleftrightarrow>
      \<not> (flds ''remote_addr'' = None \<or> flds ''remote_addr'' = Some [] \<or>
         flds ''http_user_agent'' = None \<or> flds ''http_user_agent'' = Some [])"
    by (auto simp: observeCurrentUsers_def Let_def split: option.splits)
  have d: "\<not> CurrentUserInterval (MetricsConfig nsCfg) > 0 \<longrightarrow>
      observeUsers nsCfg flds labels now (users, m) = (users, m)"
    by (simp add: observeUsers_def)
  have e: "parser line = Inr parsed \<longrightarrow>
      usersUpdated (processLine pkg P nsCfg parser hasCounterOnlyLabels relabelings
                      relabelLabelOffset (line, now) st)
        = fst (observeUsers nsCfg (filterFields parsed nsCfg)
                 (spec_otherLabels pkg nsCfg hasCounterOnlyLabels relabelings
                    relabelLabelOffset parsed (labelValues st))
                 now (usersUpdated st, [])) \<and>
      metrics (processLine pkg P nsCfg parser hasCounterOnlyLabels relabelings
                 relabelLabelOffset (line, now) st)
        = metrics st @
          (if DisableCountTotal (MetricsConfig nsCfg) then []
           else [CountTotal_Inc (spec_labelValues nsCfg relabelings relabelLabelOffset parsed
                                   (labelValues st))]) @
          snd (observeUsers nsCfg (filterFields parsed nsCfg)
                 (spec_otherLabels pkg nsCfg hasCounterOnlyLabels relabelings
                    relabelLabelOffset parsed (labelValues st))
                 now (usersUpdated st, [])) @
          concat (map (spec_fieldBlock P (filterFields parsed nsCfg)
                         (spec_otherLabels pkg nsCfg hasCounterOnlyLabels relabelings
                            relabelLabelOffset parsed (labelValues st)))
                    spec_numericFields)"
  proof
    assume p: "parser line = Inr parsed"
    show "usersUpdated (processLine pkg P nsCfg parser hasCounterOnlyLabels relabelings
                      relabelLabelOffset (line, now) st)
        = fst (observeUsers nsCfg (filterFields parsed nsCfg)
                 (spec_otherLabels pkg nsCfg hasCounterOnlyLabels relabelings
                    relabelLabelOffset parsed (labelValues st))
                 now (usersUpdated st, [])) \<and>
      metrics (processLine pkg P nsCfg parser hasCounterOnlyLabels relabelings
                 relabelLabelOffset (line, now) st)
        = metrics st @
          (if DisableCountTotal (MetricsConfig nsCfg) then []
           else [CountTotal_Inc (spec_labelValues nsCfg relabelings relabelLabelOffset parsed
                                   (labelValues st))]) @
          snd (observeUsers nsCfg (filterFields parsed nsCfg)
                 (spec_otherLabels pkg nsCfg hasCounterOnlyLabels relabelings
                    relabelLabelOffset parsed (labelValues st))
                 now (usersUpdated st, [])) @
          concat (map (spec_fieldBlock P (filterFields parsed nsCfg)
                         (spec_otherLabels pkg nsCfg hasCounterOnlyLabels relabelings
                            relabelLabelOffset parsed (labelValues st)))
                    spec_numericFields)"
      by (simp add: processLine_parsed(2,3) [where parser = parser and line = line, OF p])
  qed
  from a b c d e show ?thesis by blast
qed

text \<open>
  A second user, with one user in the tracker already: the gauge is set to 2. Without
  a user agent the line is skipped, and so is a line that has no address at all.
\<close>

theorem current_users_observation_witness:
  "observeUsers exampleConfig
      [''remote_addr'' \<mapsto> ''10.0.0.2'', ''http_user_agent'' \<mapsto> ''curl'']
      [''web''] 1700000060 ([''10.0.0.1::curl'' \<mapsto> 1700000000], [] :: rat update list)
     = ([''10.0.0.1::curl'' \<mapsto> 1700000000, ''10.0.0.2::curl'' \<mapsto> 1700000060],
        [CurrentUsers_Set [''web''] 2]) \<and>
   observeCurrentUsers [''remote_addr'' \<mapsto> ''10.0.0.2'', ''http_user_agent'' \<mapsto> []]
      [''10.0.0.1::curl'' \<mapsto> 1700000000] 1700000060
     = ((0, False), [''10.0.0.1::curl'' \<mapsto> 1700000000]) \<and>
   observeUsers exampleConfig
      [''remote_addr'' \<mapsto> ''10.0.0.2'', ''http_user_agent'' \<mapsto> []]
      [''web''] 1700000060 ([''10.0.0.1::curl'' \<mapsto> 1700000000], [] :: rat update list)
     = ([''10.0.0.1::curl'' \<mapsto> 1700000000], []) \<and>
   usersUpdated (processLine examplePkg decimalLiteral exampleConfig exampleParser False
      [exampleRelabeling] 3 (''200,512'', 1700000060)
      \<lparr>labelValues = [''web'', ''prod'', ''eu'', []],
       usersUpdated = [''10.0.0.1::curl'' \<mapsto> 1700000000], metrics = []\<rparr>)
     = [''10.0.0.1::curl'' \<mapsto> 1700000000]"
proof -
  define st :: "rat pipeline"
    where "st = \<lparr>labelValues = [''web'', ''prod'', ''eu'', []],
                 usersUpdated = [''10.0.0.1::curl'' \<mapsto> 1700000000], metrics = []\<rparr>"
  define parsed :: fields
    where "parsed = [''status'' \<mapsto> ''200'', ''body_bytes_sent'' \<mapsto> ''512'']"
  have i: "CurrentUserInterval (MetricsConfig exampleConfig) > 0"
    by (simp add: exampleConfig_def exampleMetricsConfig_def)
  have c: "card (dom [''10.0.0.1::curl'' \<mapsto> (1700000000 :: 64 word),
                      ''10.0.0.2::curl'' \<mapsto> 1700000060]) = 2"
    by simp
  have p: "exampleParser ''200,512'' = Inr parsed"
    by (simp add: exampleParser_def parsed_def)
  note t1 = current_users_observation [where
            flds = "[''remote_addr'' \<mapsto> ''10.0.0.2'', ''http_user_agent'' \<mapsto> ''curl'']"
            and remoteAddr = "''10.0.0.2''" and userAgent = "''curl''"
            and users = "[''10.0.0.1::curl'' \<mapsto> 1700000000]" and now = 1700000060
            and nsCfg = exampleConfig and labels = "[''web'']" and m = "[] :: rat update list"
            and parser = exampleParser and line = "''200,512''" and parsed = parsed
            and pkg = examplePkg and P = decimalLiteral and hasCounterOnlyLabels = False
            and relabelings = "[exampleRelabeling]" and relabelLabelOffset = 3 and st = st]
  note t2 = current_users_observation [where
            flds = "[''remote_addr'' \<mapsto> ''10.0.0.2'', ''http_user_agent'' \<mapsto> []]"
            and remoteAddr = "''10.0.0.2''" and userAgent = "[]"
            and users = "[''10.0.0.1::curl'' \<mapsto> 1700000000]" and now = 1700000060
            and nsCfg = exampleConfig and labels = "[''web'']" and m = "[] :: rat update list"
            and parser = exampleParser and line = "''200,512''" and parsed = parsed
            and pkg = examplePkg and P = decimalLiteral and hasCounterOnlyLabels = False
            and relabelings = "[exampleRelabeling]" and relabelLabelOffset = 3 and st = st]
  note t3 = current_users_observation [where
            flds = "filterFields parsed exampleConfig"
            and remoteAddr = "[]" and userAgent = "[]"
            and users = "usersUpdated st" and now = 1700000060
            and nsCfg = exampleConfig
            and labels = "spec_otherLabels examplePkg exampleConfig False [exampleRelabeling] 3
                            parsed (labelValues st)"
            and m = "[] :: rat update list"
            and parser = exampleParser and line = "''200,512''" and parsed = parsed
            and pkg = examplePkg and P = decimalLiteral and hasCounterOnlyLabels = False
            and relabelings = "[exampleRelabeling]" and relabelLabelOffset = 3 and st = st]
  have 1: "observeUsers exampleConfig
      [''remote_addr'' \<mapsto> ''10.0.0.2'', ''http_user_agent'' \<mapsto> ''curl'']
      [''web''] 1700000060 ([''10.0.0.1::curl'' \<mapsto> 1700000000], [] :: rat update list)
     = ([''10.0.0.1::curl'' \<mapsto> 1700000000, ''10.0.0.2::curl'' \<mapsto> 1700000060],
        [CurrentUsers_Set [''web''] 2])"
    using t1 [THEN conjunct2, THEN conjunct1] i by (simp add: c)
  have 2: "observeCurrentUsers [''remote_addr'' \<mapsto> ''10.0.0.2'', ''http_user_agent'' \<mapsto> []]
      [''10.0.0.1::curl'' \<mapsto> 1700000000] 1700000060
     = ((0, False), [''10.0.0.1::curl'' \<mapsto> 1700000000])"
    and 3: "observeUsers exampleConfig
      [''remote_addr'' \<mapsto> ''10.0.0.2'', ''http_user_agent'' \<mapsto> []]
      [''web''] 1700000060 ([''10.0.0.1::curl'' \<mapsto> 1700000000], [] :: rat update list)
     = ([''10.0.0.1::curl'' \<mapsto> 1700000000], [])"
    using t2 [THEN conjunct1] by simp_all
  have f: "filterFields parsed exampleConfig ''remote_addr'' = None"
    by (simp add: filterFields_def parsed_def)
  have u1: "usersUpdated (processLine examplePkg decimalLiteral exampleConfig exampleParser False
      [exampleRelabeling] 3 (''200,512'', 1700000060) st)
     = fst (observeUsers exampleConfig (filterFields parsed exampleConfig)
              (spec_otherLabels examplePkg exampleConfig False [exampleRelabeling] 3
                 parsed (labelValues st))
              1700000060 (usersUpdated st, [] :: rat update list))"
    using t3 [THEN conjunct2, THEN conjunct2, THEN conjunct2, THEN conjunct2] p by blast
  have u2: "observeUsers exampleConfig (filterFields parsed exampleConfig)
              (spec_otherLabels examplePkg exampleConfig False [exampleRelabeling] 3
                 parsed (labelValues st))
              1700000060 (usersUpdated st, [] :: rat update list)
            = (usersUpdated st, [])"
    using t3 [THEN conjunct1] f by blast
  have 4: "usersUpdated (processLine examplePkg decimalLiteral exampleConfig exampleParser False
      [exampleRelabeling] 3 (''200,512'', 1700000060) st)
     = [''10.0.0.1::curl'' \<mapsto> 1700000000]"
    unfolding u1 u2 by (simp add: st_def)
  from 1 2 3 4 show ?thesis unfolding st_def by simp
qed

section \<open>The label vector\<close>

lemma relabelLoop_length:
  "length (relabelLoop off flds i rs lv) = length lv"
  by (induction rs arbitrary: i lv) (simp_all split: option.splits sum.splits)

lemma relabelLoop_take:
  "take off (relabelLoop off flds i rs lv) = take off lv"
  by (induction rs arbitrary: i lv) (simp_all split: option.splits sum.splits)

lemma relabelLoop_below:
  "k < i + off \<Longrightarrow> relabelLoop off flds i rs lv ! k = lv ! k"
  by (induction rs arbitrary: i lv) (simp_all split: option.splits sum.splits)

text \<open>The slot of relabeling \<open>j\<close> is written by that relabeling alone.\<close>

lemma relabelLoop_slot:
  "j < length rs \<Longrightarrow>
   relabelLoop off flds i rs lv ! (i + j + off) =
     (case flds (SourceValue (rs ! j)) of
        None \<Rightarrow> lv ! (i + j + off)
      | Some str \<Rightarrow>
          (case Map (rs ! j) str of
             Inl e \<Rightarrow> lv ! (i + j + off)
           | Inr mapped \<Rightarrow> if i + j + off < length lv then mapped else lv ! (i + j + off)))"
proof (induction rs arbitrary: i j lv)
  case Nil
  then show ?case by simp
next
  case (Cons r rs)
  show ?case
  proof (cases j)
    case 0
    then show ?thesis
      by (simp add: relabelLoop_below list_update_beyond split: option.splits sum.splits)
  next
    case (Suc j')
    with Cons.prems have "j' < length rs" by simp
    from Cons.IH [OF this, of "Suc i"] Suc show ?thesis
      by (simp add: relabelLoop_length split: option.splits sum.splits)
  qed
qed

lemma copy_static:
  "take (length src) (copy (replicate (length src + n) x) src) = src"
  "length (copy (replicate (length src + n) x) src) = length src + n"
  "i < n \<Longrightarrow> copy (replicate (length src + n) x) src ! (length src + i) = x"
  by (simp_all add: copy_def nth_append)

lemma processLine_take:
  "take off (labelValues (processLine pkg P nsCfg parser h rs off entry st))
     = take off (labelValues st)"
  by (cases entry) (simp add: processLine_def Let_def relabelLoop_take split: sum.splits)

lemma processLine_length:
  "length (labelValues (processLine pkg P nsCfg parser h rs off entry st))
     = length (labelValues st)"
  by (cases entry) (simp add: processLine_def Let_def relabelLoop_length split: sum.splits)

lemma processLines_take:
  "take off (labelValues (processLines pkg P nsCfg parser h rs off t st))
     = take off (labelValues st)"
  by (induction t arbitrary: st) (simp_all add: processLine_take)

lemma processLines_length:
  "length (labelValues (processLines pkg P nsCfg parser h rs off t st))
     = length (labelValues st)"
  by (induction t arbitrary: st) (simp_all add: processLine_length)

text \<open>
  C9. After any number of lines of a source, \<open>t\<close> being the lines processed so far,
  the first entries of the label vector, as many as there are static labels, are the
  \<open>OrderedLabelValues\<close> of the namespace: they are copied there before the loop, and
  no line writes below that index. The vector keeps the length it was made with.
\<close>

theorem static_segment_kept:
  "take (length (OrderedLabelValues nsCfg))
     (labelValues
        (processLines pkg P nsCfg parser hasCounterOnlyLabels (sourceRelabelings pkg nsCfg)
           (length (OrderedLabelValues nsCfg)) t (initialPipeline pkg nsCfg m)))
     = OrderedLabelValues nsCfg \<and>
   length (labelValues
        (processLines pkg P nsCfg parser hasCounterOnlyLabels (sourceRelabelings pkg nsCfg)
           (length (OrderedLabelValues nsCfg)) t (initialPipeline pkg nsCfg m)))
     = length (OrderedLabelValues nsCfg) + length (sourceRelabelings pkg nsCfg)"
  by (simp add: processLines_take processLines_length initialPipeline_def Let_def copy_static)

text \<open>
  C2. For relabeling \<open>i\<close> and a line that parses: if the filtered fields lack the
  source field of the relabeling, or its transform fails on the field's value, the
  slot at the number of static labels plus \<open>i\<close> holds after the line what it held
  before; if the field is there and the transform succeeds, the slot holds the mapped
  value. Before the first line the slot holds the empty string.
\<close>

theorem relabel_slot_carry_forward:
  assumes "i < length relabelings" and "parser line = Inr parsed"
  shows
   "(filterFields parsed nsCfg (SourceValue (relabelings ! i)) = None \<or>
     (filterFields parsed nsCfg (SourceValue (relabelings ! i)) = Some str \<and>
      Map (relabelings ! i) str = Inl e) \<longrightarrow>
       labelValues (processLine pkg P nsCfg parser hasCounterOnlyLabels relabelings
                      relabelLabelOffset (line, now) st) ! (relabelLabelOffset + i)
         = labelValues st ! (relabelLabelOffset + i)) \<and>
    (filterFields parsed nsCfg (SourceValue (relabelings ! i)) = Some str \<and>
     Map (relabelings ! i) str = Inr mapped \<and>
     relabelLabelOffset + i < length (labelValues st) \<longrightarrow>
       labelValues (processLine pkg P nsCfg parser hasCounterOnlyLabels relabelings
                      relabelLabelOffset (line, now) st) ! (relabelLabelOffset + i)
         = mapped) \<and>
    (i < length (sourceRelabelings pkg nsCfg) \<longrightarrow>
       labelValues (initialPipeline pkg nsCfg m) ! (length (OrderedLabelValues nsCfg) + i) = [])"
proof -
  have lv: "labelValues (processLine pkg P nsCfg parser hasCounterOnlyLabels relabelings
                      relabelLabelOffset (line, now) st)
        = relabelLoop relabelLabelOffset (filterFields parsed nsCfg) 0 relabelings (labelValues st)"
    using assms(2) by (simp add: processLine_def Let_def)
  note s = relabelLoop_slot [OF assms(1), of relabelLabelOffset "filterFields parsed nsCfg" 0
      "labelValues st", simplified]
  have i: "i < length (sourceRelabelings pkg nsCfg) \<longrightarrow>
       labelValues (initialPipeline pkg nsCfg m) ! (length (OrderedLabelValues nsCfg) + i) = []"
    by (simp add: initialPipeline_def Let_def copy_static)
  show ?thesis
    using s i by (auto simp: lv add.commute)
qed

text \<open>
  Three lines: the first sets the status label to 200, the second has no status, the
  third a status that the transform refuses. The label is 200 after each.
\<close>

theorem relabel_slot_carry_forward_witness:
  "labelValues (processLine examplePkg decimalLiteral exampleConfig exampleParser False
      [exampleRelabeling] 3 (''200,512'', 1)
      \<lparr>labelValues = [''web'', ''prod'', ''eu'', []], usersUpdated = Map.empty, metrics = []\<rparr>) ! 3
     = ''200'' \<and>
   labelValues (processLine examplePkg decimalLiteral exampleConfig exampleParser False
      [exampleRelabeling] 3 ('',512'', 2)
      \<lparr>labelValues = [''web'', ''prod'', ''eu'', ''200''], usersUpdated = Map.empty,
       metrics = []\<rparr>) ! 3
     = ''200'' \<and>
   labelValues (processLine examplePkg decimalLiteral exampleConfig exampleParser False
      [exampleRelabeling] 3 (''20,512'', 3)
      \<lparr>labelValues = [''web'', ''prod'', ''eu'', ''200''], usersUpdated = Map.empty,
       metrics = []\<rparr>) ! 3
     = ''200''"
proof -
  have i: "0 < length [exampleRelabeling]" by simp
  have p1: "exampleParser ''200,512''
              = Inr [''status'' \<mapsto> ''200'', ''body_bytes_sent'' \<mapsto> ''512'']"
    and p2: "exampleParser '',512'' = Inr [''body_bytes_sent'' \<mapsto> ''512'']"
    and p3: "exampleParser ''20,512''
              = Inr [''status'' \<mapsto> ''20'', ''body_bytes_sent'' \<mapsto> ''512'']"
    by (simp_all add: exampleParser_def)
  have f1: "filterFields [''status'' \<mapsto> ''200'', ''body_bytes_sent'' \<mapsto> ''512'']
              exampleConfig ''status'' = Some ''200''"
    and f2: "filterFields [''body_bytes_sent'' \<mapsto> ''512''] exampleConfig ''status'' = None"
    and f3: "filterFields [''status'' \<mapsto> ''20'', ''body_bytes_sent'' \<mapsto> ''512'']
              exampleConfig ''status'' = Some ''20''"
    by (simp_all add: filterFields_def)
  have s: "SourceValue exampleRelabeling = ''status''"
    and m1: "Map exampleRelabeling ''200'' = Inr ''200''"
    and m3: "Map exampleRelabeling ''20'' = Inl (ForeignError ''20'')"
    by (simp_all add: exampleRelabeling_def)
  note t1 = relabel_slot_carry_forward [where relabelings = "[exampleRelabeling]" and i = 0
      and parser = exampleParser and line = "''200,512''" and nsCfg = exampleConfig
      and pkg = examplePkg and P = decimalLiteral and hasCounterOnlyLabels = False
      and relabelLabelOffset = 3 and now = 1 and str = "''200''" and mapped = "''200''"
      and e = "ForeignError []" and m = "[] :: rat update list"
      and st = "\<lparr>labelValues = [''web'', ''prod'', ''eu'', []], usersUpdated = Map.empty,
                 metrics = []\<rparr>", OF i p1]
  note t2 = relabel_slot_carry_forward [where relabelings = "[exampleRelabeling]" and i = 0
      and parser = exampleParser and line = "'',512''" and nsCfg = exampleConfig
      and pkg = examplePkg and P = decimalLiteral and hasCounterOnlyLabels = False
      and relabelLabelOffset = 3 and now = 2 and str = "[]" and mapped = "[]"
      and e = "ForeignError []" and m = "[] :: rat update list"
      and st = "\<lparr>labelValues = [''web'', ''prod'', ''eu'', ''200''], usersUpdated = Map.empty,
                 metrics = []\<rparr>", OF i p2]
  note t3 = relabel_slot_carry_forward [where relabelings = "[exampleRelabeling]" and i = 0
      and parser = exampleParser and line = "''20,512''" and nsCfg = exampleConfig
      and pkg = examplePkg and P = decimalLiteral and hasCounterOnlyLabels = False
      and relabelLabelOffset = 3 and now = 3 and str = "''20''" and e = "ForeignError ''20''"
      and mapped = "[]" and m = "[] :: rat update list"
      and st = "\<lparr>labelValues = [''web'', ''prod'', ''eu'', ''200''], usersUpdated = Map.empty,
                 metrics = []\<rparr>", OF i p3]
  have 1: "labelValues (processLine examplePkg decimalLiteral exampleConfig exampleParser False
      [exampleRelabeling] 3 (''200,512'', 1)
      \<lparr>labelValues = [''web'', ''prod'', ''eu'', []], usersUpdated = Map.empty, metrics = []\<rparr>) ! 3
     = ''200''"
    using t1 by (simp add: f1 s m1)
  have 2: "labelValues (processLine examplePkg decimalLiteral exampleConfig exampleParser False
      [exampleRelabeling] 3 ('',512'', 2)
      \<lparr>labelValues = [''web'', ''prod'', ''eu'', ''200''], usersUpdated = Map.empty,
       metrics = []\<rparr>) ! 3
     = ''200''"
    using t2 by (simp add: f2 s)
  have 3: "labelValues (processLine examplePkg decimalLiteral exampleConfig exampleParser False
      [exampleRelabeling] 3 (''20,512'', 3)
      \<lparr>labelValues = [''web'', ''prod'', ''eu'', ''200''], usersUpdated = Map.empty,
       metrics = []\<rparr>) ! 3
     = ''200''"
    using t3 by (simp add: f3 s m3)
  from 1 2 3 show ?thesis by simp
qed

section \<open>The order of the static labels\<close>

lemma assignValues_map:
  "i + length ks \<le> length vs \<Longrightarrow>
   assignValues labels i ks vs = take i vs @ map (lookupLabel labels) ks @ drop (i + length ks) vs"
proof (induction ks arbitrary: i vs)
  case Nil
  then show ?case by simp
next
  case (Cons k ks)
  then have l: "i < length vs" by simp
  have "assignValues labels i (k # ks) vs
      = assignValues labels (Suc i) ks (vs[i := lookupLabel labels k])" by simp
  also have "\<dots> = take (Suc i) (vs[i := lookupLabel labels k]) @ map (lookupLabel labels) ks
      @ drop (Suc i + length ks) (vs[i := lookupLabel labels k])"
    using Cons.prems by (intro Cons.IH) simp
  also have "take (Suc i) (vs[i := lookupLabel labels k]) = take i vs @ [lookupLabel labels k]"
    using l by (simp add: take_Suc_conv_app_nth)
  also have "drop (Suc i + length ks) (vs[i := lookupLabel labels k])
      = drop (i + length (k # ks)) vs"
    by simp
  finally show ?case by simp
qed

lemma OrderLabels_names: "OrderedLabelNames (OrderLabels c) = sort (map fst (Labels c))"
  by (simp add: OrderLabels_def Let_def)

lemma OrderLabels_values:
  "OrderedLabelValues (OrderLabels c)
     = map (lookupLabel (Labels c)) (sort (map fst (Labels c)))"
  by (simp add: OrderLabels_def Let_def assignValues_map)

lemma sort_distinct_set:
  "distinct xs \<Longrightarrow> sort xs = sorted_list_of_set (set xs)"
  by (simp add: sorted_list_of_set_sort_remdups distinct_remdups_id)

lemma lookupLabel_Some:
  "k \<in> fst ` set labels \<Longrightarrow> map_of labels k = Some (lookupLabel labels k)"
  by (cases "map_of labels k") (auto simp: lookupLabel_def map_of_eq_None_iff)

text \<open>
  C7. For a static label mapping (its keys distinct, as the keys of a map are),
  \<open>OrderLabels\<close> sets \<open>OrderedLabelNames\<close> to the keys in ascending lexicographic
  order and \<open>OrderedLabelValues\<close> to the values of these keys, position by position.
  A configuration \<open>c'\<close> with the same mapping enumerated in another order gets the same
  two lists, so compiling a configuration twice gives the same lists.
\<close>

theorem OrderLabels_sorted_and_stable:
  assumes "distinct (map fst (Labels c))"
  shows "OrderedLabelNames (OrderLabels c) = sorted_list_of_set (fst ` set (Labels c)) \<and>
         map (map_of (Labels c)) (OrderedLabelNames (OrderLabels c))
           = map Some (OrderedLabelValues (OrderLabels c)) \<and>
         (distinct (map fst (Labels c')) \<and> set (Labels c') = set (Labels c) \<longrightarrow>
            OrderedLabelNames (OrderLabels c') = OrderedLabelNames (OrderLabels c) \<and>
            OrderedLabelValues (OrderLabels c') = OrderedLabelValues (OrderLabels c))"
proof -
  have n: "OrderedLabelNames (OrderLabels c) = sorted_list_of_set (fst ` set (Labels c))"
    using assms by (simp add: OrderLabels_names sort_distinct_set)
  have v: "map (map_of (Labels c)) (OrderedLabelNames (OrderLabels c))
           = map Some (OrderedLabelValues (OrderLabels c))"
    by (simp add: OrderLabels_names OrderLabels_values lookupLabel_Some)
  have s: "OrderedLabelNames (OrderLabels c') = OrderedLabelNames (OrderLabels c) \<and>
            OrderedLabelValues (OrderLabels c') = OrderedLabelValues (OrderLabels c)"
    if d: "distinct (map fst (Labels c'))" and e: "set (Labels c') = set (Labels c)"
  proof -
    have k: "sort (map fst (Labels c')) = sort (map fst (Labels c))"
      using d e assms by (simp add: sort_distinct_set)
    have "map_of (Labels c') = map_of (Labels c)"
      using d e assms by (intro map_of_inject_set [THEN iffD2])
    then have "lookupLabel (Labels c') = lookupLabel (Labels c)"
      by (intro ext) (simp add: lookupLabel_def)
    with k show ?thesis by (simp add: OrderLabels_names OrderLabels_values)
  qed
  from n v s show ?thesis by blast
qed

text \<open>
  The labels \<open>zone\<close>, \<open>app\<close> and \<open>env\<close>, enumerated in this order and in the order
  \<open>env\<close>, \<open>zone\<close>, \<open>app\<close>: the names are \<open>app\<close>, \<open>env\<close>, \<open>zone\<close> both times.
\<close>

theorem OrderLabels_sorted_and_stable_witness:
  "OrderedLabelNames (OrderLabels exampleConfig) = [''app'', ''env'', ''zone''] \<and>
   OrderedLabelValues (OrderLabels exampleConfig) = [''web'', ''prod'', ''eu''] \<and>
   OrderedLabelNames (OrderLabels
      (exampleConfig\<lparr>Labels := [(''env'', ''prod''), (''zone'', ''eu''), (''app'', ''web'')]\<rparr>))
     = [''app'', ''env'', ''zone''] \<and>
   OrderedLabelValues (OrderLabels
      (exampleConfig\<lparr>Labels := [(''env'', ''prod''), (''zone'', ''eu''), (''app'', ''web'')]\<rparr>))
     = [''web'', ''prod'', ''eu'']"
proof -
  have d: "distinct (map fst (Labels exampleConfig))"
    by (simp add: exampleConfig_def)
  have d': "distinct (map fst (Labels
      (exampleConfig\<lparr>Labels := [(''env'', ''prod''), (''zone'', ''eu''), (''app'', ''web'')]\<rparr>)))"
    by simp
  have e: "set (Labels
      (exampleConfig\<lparr>Labels := [(''env'', ''prod''), (''zone'', ''eu''), (''app'', ''web'')]\<rparr>))
      = set (Labels exampleConfig)"
    by (auto simp: exampleConfig_def)
  have k: "sort [''zone'', ''app'', ''env''] = [''app'', ''env'', ''zone'']"
    by code_simp
  have n: "OrderedLabelNames (OrderLabels exampleConfig) = [''app'', ''env'', ''zone'']"
    by (simp add: OrderLabels_names exampleConfig_def k)
  have v: "OrderedLabelValues (OrderLabels exampleConfig) = [''web'', ''prod'', ''eu'']"
    by (simp add: OrderLabels_values exampleConfig_def k lookupLabel_def)
  show ?thesis
    using OrderLabels_sorted_and_stable [OF d, of
            "exampleConfig\<lparr>Labels := [(''env'', ''prod''), (''zone'', ''eu''), (''app'', ''web'')]\<rparr>"]
          d' e n v
    by simp
qed

section \<open>The tracker stays finite\<close>

text \<open>
  \<open>len(usersUpdated.users)\<close> is modelled by the cardinality of the domain, which
  counts the keys of a finite map; the tracker of a source is finite after every line.
\<close>

lemma observeCurrentUsers_finite:
  "finite (dom users) \<Longrightarrow> finite (dom (snd (observeCurrentUsers flds users now)))"
  by (simp add: observeCurrentUsers_def Let_def split: option.splits)

lemma observeUsers_finite:
  "finite (dom (fst um)) \<Longrightarrow> finite (dom (fst (observeUsers nsCfg flds labels now um)))"
  using observeCurrentUsers_finite [of "fst um" flds now]
  by (cases um) (auto simp: observeUsers_def split: prod.splits)

lemma processLine_finite:
  "finite (dom (usersUpdated st)) \<Longrightarrow>
   finite (dom (usersUpdated (processLine pkg P nsCfg parser h rs off entry st)))"
  by (cases entry) (simp add: processLine_def Let_def observeUsers_finite split: sum.splits)

lemma processLines_finite:
  "finite (dom (usersUpdated st)) \<Longrightarrow>
   finite (dom (usersUpdated (processLines pkg P nsCfg parser h rs off t st)))"
  by (induction t arbitrary: st) (simp_all add: processLine_finite)

lemma tracker_finite:
  "finite (dom (usersUpdated
     (processLines pkg P nsCfg parser h rs off t (initialPipeline pkg nsCfg m))))"
  by (rule processLines_finite) (simp add: initialPipeline_def Let_def)

end
